theory Spec2Isabelle
  imports Main
begin

section \<open>The activity registry of the Mergington High School API\<close>

text \<open>
  The program is \<^verbatim>\<open>src/app.py\<close>: a module-level dictionary \<^verbatim>\<open>activities\<close> and three
  request handlers (\<^verbatim>\<open>root\<close>, \<^verbatim>\<open>get_activities\<close>, \<^verbatim>\<open>signup_for_activity\<close>) registered on
  a FastAPI application. The dictionary is the only state. Every handler is modelled as
  a function that takes the dictionary and returns its answer with the dictionary as the
  handler leaves it.
\<close>

subsection \<open>Data\<close>

text \<open>
  Every value of \<^verbatim>\<open>activities\<close> is a dictionary with the same four keys, read by name
  (\<^verbatim>\<open>activity["participants"]\<close>): a record. Python integers are unbounded.
\<close>

record activity =
  description :: string
  schedule :: string
  max_participants :: int
  participants :: "string list"

type_synonym registry = "string \<rightharpoonup> activity"

text \<open>The dictionary literal of lines 23 to 60, entry by entry.\<close>

definition activities :: registry where
  "activities =
     [''Basketball Club'' \<mapsto>
        \<lparr>description = ''Play basketball and improve athletic skills'',
         schedule = ''Mondays and Wednesdays, 4:00 PM - 5:30 PM'',
         max_participants = 15,
         participants = []\<rparr>,
      ''Tennis Team'' \<mapsto>
        \<lparr>description = ''Learn tennis techniques and compete in matches'',
         schedule = ''Tuesdays and Thursdays, 3:30 PM - 5:00 PM'',
         max_participants = 10,
         participants = []\<rparr>,
      ''Art Studio'' \<mapsto>
        \<lparr>description = ''Explore painting, drawing, and sculpture techniques'',
         schedule = ''Wednesdays, 3:30 PM - 5:00 PM'',
         max_participants = 18,
         participants = []\<rparr>,
      ''Music Band'' \<mapsto>
        \<lparr>description = ''Join the school band and perform in concerts'',
         schedule = ''Mondays and Thursdays, 4:00 PM - 5:30 PM'',
         max_participants = 25,
         participants = []\<rparr>,
      ''Debate Team'' \<mapsto>
        \<lparr>description = ''Develop argumentation skills and compete in debates'',
         schedule = ''Tuesdays, 3:30 PM - 5:00 PM'',
         max_participants = 16,
         participants = []\<rparr>,
      ''Science Club'' \<mapsto>
        \<lparr>description = ''Conduct experiments and explore scientific concepts'',
         schedule = ''Fridays, 3:30 PM - 5:00 PM'',
         max_participants = 20,
         participants = []\<rparr>]"

text \<open>
  What a request is answered with. \<open>JSONMessage m\<close> is the returned dictionary
  \<^verbatim>\<open>{"message": m}\<close> (status 200), \<open>JSONActivities\<close> the returned registry,
  \<open>HTTPException code detail\<close> the raised exception, \<open>RedirectResponse url\<close> the
  redirect of \<^verbatim>\<open>root\<close>. \<open>StaticFiles\<close> stands for a request given to the mounted
  static-file application, and \<open>NotHandled\<close> for a request for which no function of
  \<^verbatim>\<open>app.py\<close> is registered: the framework answers it by itself (for an unknown
  path with status 404 and detail \<^verbatim>\<open>Not Found\<close>) and runs no code of the module.
\<close>

datatype response =
    JSONMessage string
  | JSONActivities registry
  | HTTPException nat string
  | RedirectResponse string
  | StaticFiles "string list"
  | NotHandled

subsection \<open>The handlers\<close>

definition root :: "registry \<Rightarrow> response \<times> registry" where
  "root reg = (RedirectResponse ''/static/index.html'', reg)"

definition get_activities :: "registry \<Rightarrow> response \<times> registry" where
  "get_activities reg = (JSONActivities reg, reg)"

text \<open>
  \<^verbatim>\<open>signup_for_activity\<close>, lines 74 to 89: the two checks raise before anything is
  written, and \<^verbatim>\<open>append\<close> changes the participants list of the one activity in place.
\<close>

definition signup_for_activity :: "string \<Rightarrow> string \<Rightarrow> registry \<Rightarrow> response \<times> registry" where
  "signup_for_activity activity_name email reg =
     (case reg activity_name of
        None \<Rightarrow> (HTTPException 404 ''Activity not found'', reg)
      | Some act \<Rightarrow>
          if email \<in> set (participants act)
          then (HTTPException 400 ''Student already signed up for this activity'', reg)
          else (JSONMessage (''Signed up '' @ email @ '' for '' @ activity_name),
                reg(activity_name \<mapsto> act\<lparr>participants := participants act @ [email]\<rparr>)))"

subsection \<open>The routes\<close>

text \<open>
  A request is its method, the decoded segments of its path and the \<^verbatim>\<open>email\<close> query
  parameter when it has one. The routes are those \<^verbatim>\<open>app.py\<close> registers, in its order:
  the mount of \<^verbatim>\<open>/static\<close> (line 19), \<^verbatim>\<open>GET /\<close>, \<^verbatim>\<open>GET /activities\<close> and
  \<^verbatim>\<open>POST /activities/{activity_name}/signup\<close>. A path parameter matches one segment
  that is not empty (a segment holds no slash), and a signup request without
  \<^verbatim>\<open>email\<close> is refused by the framework before the handler runs.
\<close>

datatype http_method = GET | POST | PUT | PATCH | DELETE | HEAD | OPTIONS

datatype request = Request http_method "string list" "string option"

fun handle :: "request \<Rightarrow> registry \<Rightarrow> response \<times> registry" where
  "handle (Request m p q) reg =
     (case p of
        [] \<Rightarrow> (if m = GET then root reg else (NotHandled, reg))
      | s # rest \<Rightarrow>
          if s = ''static'' then (StaticFiles rest, reg)
          else if m = GET \<and> p = [''activities''] then get_activities reg
          else if m = POST \<and> length p = 3 \<and> s = ''activities''
                  \<and> p ! 1 \<noteq> [] \<and> p ! 2 = ''signup''
          then (case q of
                  Some email \<Rightarrow> signup_for_activity (p ! 1) email reg
                | None \<Rightarrow> (NotHandled, reg))
          else (NotHandled, reg))"

text \<open>The registry after a sequence of requests, served one after the other.\<close>

fun run :: "request list \<Rightarrow> registry \<Rightarrow> registry" where
  "run [] reg = reg"
| "run (r # rs) reg = run rs (snd (handle r reg))"

text \<open>
  The invariant behind the duplicate check of line 84: no participants list holds an
  email twice.
\<close>

definition distinct_participants :: "registry \<Rightarrow> bool" where
  "distinct_participants reg = (\<forall>n a. reg n = Some a \<longrightarrow> distinct (participants a))"

section \<open>Properties\<close>

subsection \<open>What a request can do to the registry\<close>

lemma signup_reg_unchanged_or_appended:
  "snd (signup_for_activity n e reg) = reg \<or>
   (\<exists>a. reg n = Some a \<and> e \<notin> set (participants a) \<and>
        snd (signup_for_activity n e reg) = reg(n \<mapsto> a\<lparr>participants := participants a @ [e]\<rparr>))"
  by (simp add: signup_for_activity_def split: option.split)

lemma handle_cases:
  "snd (handle r reg) = reg \<or> (\<exists>n e. snd (handle r reg) = snd (signup_for_activity n e reg))"
proof (cases r)
  case (Request m p q)
  then show ?thesis
    by (auto simp: root_def get_activities_def split: list.split option.split)
qed

lemma signup_distinct:
  assumes "distinct_participants reg"
  shows "distinct_participants (snd (signup_for_activity n e reg))"
  using assms signup_reg_unchanged_or_appended [of n e reg]
  by (auto simp: distinct_participants_def split: if_splits)

lemma handle_distinct:
  "distinct_participants reg \<Longrightarrow> distinct_participants (snd (handle r reg))"
  using handle_cases [of r reg] signup_distinct by auto

lemma run_distinct:
  "distinct_participants reg \<Longrightarrow> distinct_participants (run rs reg)"
  by (induction rs arbitrary: reg) (simp_all add: handle_distinct)

lemma activities_distinct: "distinct_participants activities"
  by (simp add: distinct_participants_def activities_def)

lemma count_list_distinct: "distinct xs \<Longrightarrow> x \<in> set xs \<Longrightarrow> count_list xs x = 1"
  by (induction xs) (auto simp: count_list_0_iff)

lemma signup_dom: "dom (snd (signup_for_activity n e reg)) = dom reg"
  by (auto simp: signup_for_activity_def split: option.split)

lemma handle_dom: "dom (snd (handle r reg)) = dom reg"
  using handle_cases [of r reg] signup_dom [of _ _ reg] by (elim disjE exE) simp_all

lemma run_dom: "dom (run rs reg) = dom reg"
  by (induction rs arbitrary: reg) (simp_all add: handle_dom)

subsection \<open>Signup\<close>

text \<open>
  C3. For an activity name that is not a key of the registry, and any email, signup is
  answered with status 404 and detail "Activity not found", and the registry is left as
  it was.
\<close>

theorem signup_not_found:
  "reg activity_name = None \<Longrightarrow>
   signup_for_activity activity_name email reg = (HTTPException 404 ''Activity not found'', reg)"
  by (simp add: signup_for_activity_def)

theorem signup_not_found_witness:
  "activities ''NoSuchClub'' = None \<and>
   signup_for_activity ''NoSuchClub'' ''a@x.edu'' activities
     = (HTTPException 404 ''Activity not found'', activities)"
  using signup_not_found [of activities "''NoSuchClub''" "''a@x.edu''"]
  by (simp add: activities_def)

text \<open>
  C4. For an activity name of the registry and an email that is not in that activity's
  participants list, signup succeeds: the email is appended at the end of the list, the
  earlier participants keeping their order, and the answer is the message
  "Signed up {email} for {name}".
\<close>

theorem signup_appends:
  assumes "reg activity_name = Some act" and "email \<notin> set (participants act)"
  shows "signup_for_activity activity_name email reg =
           (JSONMessage (''Signed up '' @ email @ '' for '' @ activity_name),
            reg(activity_name \<mapsto> act\<lparr>participants := participants act @ [email]\<rparr>))"
  using assms by (simp add: signup_for_activity_def)

theorem signup_appends_witness:
  "run [Request POST [''activities'', ''Basketball Club'', ''signup''] (Some ''student1@mergington.edu'')]
     activities ''Basketball Club''
     = Some \<lparr>description = ''Play basketball and improve athletic skills'',
             schedule = ''Mondays and Wednesdays, 4:00 PM - 5:30 PM'',
             max_participants = 15,
             participants = [''student1@mergington.edu'']\<rparr>
   \<and> ''student2@mergington.edu'' \<notin> set [''student1@mergington.edu'']
   \<and> fst (signup_for_activity ''Basketball Club'' ''student2@mergington.edu''
        (run [Request POST [''activities'', ''Basketball Club'', ''signup''] (Some ''student1@mergington.edu'')]
           activities))
     = JSONMessage ''Signed up student2@mergington.edu for Basketball Club''
   \<and> map_option participants
        (snd (signup_for_activity ''Basketball Club'' ''student2@mergington.edu''
           (run [Request POST [''activities'', ''Basketball Club'', ''signup''] (Some ''student1@mergington.edu'')]
              activities)) ''Basketball Club'')
     = Some [''student1@mergington.edu'', ''student2@mergington.edu'']"
proof -
  let ?reg = "run [Request POST [''activities'', ''Basketball Club'', ''signup''] (Some ''student1@mergington.edu'')] activities"
  let ?act = "\<lparr>description = ''Play basketball and improve athletic skills'',
             schedule = ''Mondays and Wednesdays, 4:00 PM - 5:30 PM'',
             max_participants = 15,
             participants = [''student1@mergington.edu'']\<rparr>"
  have h1: "?reg ''Basketball Club'' = Some ?act"
    by (simp add: signup_for_activity_def activities_def)
  have h2: "''student2@mergington.edu'' \<notin> set (participants ?act)"
    by simp
  show ?thesis
    using h1 h2
      signup_appends [where reg = "?reg" and activity_name = "''Basketball Club''"
        and act = "?act" and email = "''student2@mergington.edu''"]
    by simp
qed

text \<open>
  C2. In every registry the program can reach from its start by serving requests, for an
  activity name of the registry and an email that is already in that activity's
  participants list, signup fails with status 400 and detail "Student already signed up
  for this activity", and afterwards the participants list holds the email exactly once.
\<close>

theorem signup_twice_conflict:
  assumes "run reqs activities activity_name = Some act"
    and "email \<in> set (participants act)"
  shows "signup_for_activity activity_name email (run reqs activities)
           = (HTTPException 400 ''Student already signed up for this activity'', run reqs activities)
         \<and> (\<exists>act'. snd (signup_for_activity activity_name email (run reqs activities)) activity_name
                      = Some act'
                  \<and> count_list (participants act') email = 1)"
proof -
  have resp: "signup_for_activity activity_name email (run reqs activities)
           = (HTTPException 400 ''Student already signed up for this activity'', run reqs activities)"
    using assms by (simp add: signup_for_activity_def)
  have "distinct_participants (run reqs activities)"
    by (rule run_distinct [OF activities_distinct])
  with assms(1) have "distinct (participants act)"
    by (simp add: distinct_participants_def)
  then have "count_list (participants act) email = 1"
    using assms(2) by (rule count_list_distinct)
  with resp assms(1) show ?thesis by simp
qed

theorem signup_twice_conflict_witness:
  "run [Request POST [''activities'', ''Art Studio'', ''signup''] (Some ''student4@mergington.edu'')]
     activities ''Art Studio''
     = Some \<lparr>description = ''Explore painting, drawing, and sculpture techniques'',
             schedule = ''Wednesdays, 3:30 PM - 5:00 PM'',
             max_participants = 18,
             participants = [''student4@mergington.edu'']\<rparr>
   \<and> ''student4@mergington.edu'' \<in> set [''student4@mergington.edu'']
   \<and> fst (signup_for_activity ''Art Studio'' ''student4@mergington.edu''
        (run [Request POST [''activities'', ''Art Studio'', ''signup''] (Some ''student4@mergington.edu'')]
           activities))
     = HTTPException 400 ''Student already signed up for this activity''
   \<and> map_option participants
        (snd (signup_for_activity ''Art Studio'' ''student4@mergington.edu''
           (run [Request POST [''activities'', ''Art Studio'', ''signup''] (Some ''student4@mergington.edu'')]
              activities)) ''Art Studio'')
     = Some [''student4@mergington.edu'']"
proof -
  let ?reg = "run [Request POST [''activities'', ''Art Studio'', ''signup''] (Some ''student4@mergington.edu'')] activities"
  let ?act = "\<lparr>description = ''Explore painting, drawing, and sculpture techniques'',
             schedule = ''Wednesdays, 3:30 PM - 5:00 PM'',
             max_participants = 18,
             participants = [''student4@mergington.edu'']\<rparr>"
  have h1: "?reg ''Art Studio'' = Some ?act"
    by (simp add: signup_for_activity_def activities_def)
  have h2: "''student4@mergington.edu'' \<in> set (participants ?act)"
    by simp
  show ?thesis
    using h1 h2
      signup_twice_conflict [where reqs = "[Request POST [''activities'', ''Art Studio'', ''signup''] (Some ''student4@mergington.edu'')]"
        and activity_name = "''Art Studio''" and act = "?act" and email = "''student4@mergington.edu''"]
    by simp
qed

text \<open>
  C9. A successful signup for an activity with an email changes only that activity's
  participants list: its description, schedule and max_participants are as before, and
  every other entry of the registry is as before.
\<close>

theorem signup_frame:
  assumes "signup_for_activity activity_name email reg = (JSONMessage msg, reg')"
  shows "(\<forall>other. other \<noteq> activity_name \<longrightarrow> reg' other = reg other)
         \<and> (\<exists>act act'. reg activity_name = Some act \<and> reg' activity_name = Some act'
               \<and> description act' = description act
               \<and> schedule act' = schedule act
               \<and> max_participants act' = max_participants act
               \<and> participants act' = participants act @ [email])"
  using assms
  by (auto simp: signup_for_activity_def split: option.splits if_splits)

theorem signup_frame_witness:
  "signup_for_activity ''Art Studio'' ''a@x.edu'' activities
     = (JSONMessage ''Signed up a@x.edu for Art Studio'',
        snd (signup_for_activity ''Art Studio'' ''a@x.edu'' activities))
   \<and> ''Tennis Team'' \<noteq> ''Art Studio''
   \<and> snd (signup_for_activity ''Art Studio'' ''a@x.edu'' activities) ''Tennis Team''
       = activities ''Tennis Team''
   \<and> activities ''Art Studio''
       = Some \<lparr>description = ''Explore painting, drawing, and sculpture techniques'',
               schedule = ''Wednesdays, 3:30 PM - 5:00 PM'',
               max_participants = 18,
               participants = []\<rparr>
   \<and> snd (signup_for_activity ''Art Studio'' ''a@x.edu'' activities) ''Art Studio''
       = Some \<lparr>description = ''Explore painting, drawing, and sculpture techniques'',
               schedule = ''Wednesdays, 3:30 PM - 5:00 PM'',
               max_participants = 18,
               participants = [''a@x.edu'']\<rparr>"
proof -
  have h: "signup_for_activity ''Art Studio'' ''a@x.edu'' activities
     = (JSONMessage ''Signed up a@x.edu for Art Studio'',
        snd (signup_for_activity ''Art Studio'' ''a@x.edu'' activities))"
    by (simp add: signup_for_activity_def activities_def)
  have a: "activities ''Art Studio''
       = Some \<lparr>description = ''Explore painting, drawing, and sculpture techniques'',
               schedule = ''Wednesdays, 3:30 PM - 5:00 PM'',
               max_participants = 18,
               participants = []\<rparr>"
    by (simp add: activities_def)
  have ne: "''Tennis Team'' \<noteq> ''Art Studio''" by simp
  from signup_frame [OF h] ne a h show ?thesis
    by auto
qed

text \<open>
  C6. Signup makes no capacity check: for an activity of the registry whose participants
  list is already as long as max_participants or longer, and an email that is not in the
  list, signup succeeds all the same, and the number of participants afterwards exceeds
  max_participants. The witness reaches such a registry from the start: ten signups fill
  the Tennis Team, and the eleventh is accepted.
\<close>

theorem signup_no_capacity_check:
  assumes "reg activity_name = Some act"
    and "email \<notin> set (participants act)"
    and "max_participants act \<le> int (length (participants act))"
  shows "fst (signup_for_activity activity_name email reg)
           = JSONMessage (''Signed up '' @ email @ '' for '' @ activity_name)
         \<and> (\<exists>act'. snd (signup_for_activity activity_name email reg) activity_name = Some act'
                \<and> max_participants act' = max_participants act
                \<and> length (participants act') = length (participants act) + 1
                \<and> max_participants act' < int (length (participants act')))"
  using assms by (simp add: signup_for_activity_def)

theorem signup_no_capacity_check_witness:
  "run (map (\<lambda>e. Request POST [''activities'', ''Tennis Team'', ''signup''] (Some e))
          [''s0@x.edu'', ''s1@x.edu'', ''s2@x.edu'', ''s3@x.edu'', ''s4@x.edu'',
           ''s5@x.edu'', ''s6@x.edu'', ''s7@x.edu'', ''s8@x.edu'', ''s9@x.edu''])
     activities ''Tennis Team''
     = Some \<lparr>description = ''Learn tennis techniques and compete in matches'',
             schedule = ''Tuesdays and Thursdays, 3:30 PM - 5:00 PM'',
             max_participants = 10,
             participants =
               [''s0@x.edu'', ''s1@x.edu'', ''s2@x.edu'', ''s3@x.edu'', ''s4@x.edu'',
                ''s5@x.edu'', ''s6@x.edu'', ''s7@x.edu'', ''s8@x.edu'', ''s9@x.edu'']\<rparr>
   \<and> ''late@x.edu'' \<notin> set [''s0@x.edu'', ''s1@x.edu'', ''s2@x.edu'', ''s3@x.edu'', ''s4@x.edu'',
                ''s5@x.edu'', ''s6@x.edu'', ''s7@x.edu'', ''s8@x.edu'', ''s9@x.edu'']
   \<and> (10::int) \<le> int (length [''s0@x.edu'', ''s1@x.edu'', ''s2@x.edu'', ''s3@x.edu'', ''s4@x.edu'',
                ''s5@x.edu'', ''s6@x.edu'', ''s7@x.edu'', ''s8@x.edu'', ''s9@x.edu''])
   \<and> fst (signup_for_activity ''Tennis Team'' ''late@x.edu''
        (run (map (\<lambda>e. Request POST [''activities'', ''Tennis Team'', ''signup''] (Some e))
          [''s0@x.edu'', ''s1@x.edu'', ''s2@x.edu'', ''s3@x.edu'', ''s4@x.edu'',
           ''s5@x.edu'', ''s6@x.edu'', ''s7@x.edu'', ''s8@x.edu'', ''s9@x.edu'']) activities))
       = JSONMessage ''Signed up late@x.edu for Tennis Team''
   \<and> map_option (\<lambda>a. (max_participants a, length (participants a)))
        (snd (signup_for_activity ''Tennis Team'' ''late@x.edu''
          (run (map (\<lambda>e. Request POST [''activities'', ''Tennis Team'', ''signup''] (Some e))
            [''s0@x.edu'', ''s1@x.edu'', ''s2@x.edu'', ''s3@x.edu'', ''s4@x.edu'',
             ''s5@x.edu'', ''s6@x.edu'', ''s7@x.edu'', ''s8@x.edu'', ''s9@x.edu'']) activities))
          ''Tennis Team'')
       = Some (10, 11)"
proof -
  let ?ps = "[''s0@x.edu'', ''s1@x.edu'', ''s2@x.edu'', ''s3@x.edu'', ''s4@x.edu'',
              ''s5@x.edu'', ''s6@x.edu'', ''s7@x.edu'', ''s8@x.edu'', ''s9@x.edu'']"
  let ?reg = "run (map (\<lambda>e. Request POST [''activities'', ''Tennis Team'', ''signup''] (Some e)) ?ps)
                activities"
  let ?act = "\<lparr>description = ''Learn tennis techniques and compete in matches'',
             schedule = ''Tuesdays and Thursdays, 3:30 PM - 5:00 PM'',
             max_participants = 10,
             participants = ?ps\<rparr>"
  have h1: "?reg ''Tennis Team'' = Some ?act"
    by (simp add: signup_for_activity_def activities_def)
  have h2: "''late@x.edu'' \<notin> set (participants ?act)"
    by simp
  have h3: "max_participants ?act \<le> int (length (participants ?act))"
    by simp
  from signup_no_capacity_check [where reg = "?reg" and activity_name = "''Tennis Team''"
        and act = "?act" and email = "''late@x.edu''", OF h1 h2 h3]
  have "fst (signup_for_activity ''Tennis Team'' ''late@x.edu'' ?reg)
           = JSONMessage ''Signed up late@x.edu for Tennis Team''"
    and "map_option (\<lambda>a. (max_participants a, length (participants a)))
          (snd (signup_for_activity ''Tennis Team'' ''late@x.edu'' ?reg) ''Tennis Team'')
         = Some (10, 11)"
    by auto
  with h1 h2 h3 show ?thesis by simp
qed

subsection \<open>The keys and the start of the registry\<close>

text \<open>
  C8. The set of activity names of the registry never changes: listing the activities, a
  signup that succeeds or fails, and any request at all (a request to unregister among
  them) leave the keys as they were, so after any sequence of requests the keys are
  those the program started with.
\<close>

theorem registry_keys_fixed:
  "dom (snd (get_activities reg)) = dom reg
   \<and> dom (snd (signup_for_activity activity_name email reg)) = dom reg
   \<and> dom (snd (handle req reg)) = dom reg
   \<and> dom (run reqs activities) = dom activities"
  by (simp add: get_activities_def signup_dom handle_dom run_dom)

text \<open>
  C10. At its start the registry holds exactly the six activities "Basketball Club",
  "Tennis Team", "Art Studio", "Music Band", "Debate Team" and "Science Club", and the
  participants list of every one of them is empty.
\<close>

theorem activities_seed:
  "dom activities = {''Basketball Club'', ''Tennis Team'', ''Art Studio'', ''Music Band'',
                     ''Debate Team'', ''Science Club''}
   \<and> card (dom activities) = 6
   \<and> (\<forall>name act. activities name = Some act \<longrightarrow> participants act = [])"
proof -
  have d: "dom activities = {''Basketball Club'', ''Tennis Team'', ''Art Studio'', ''Music Band'',
                     ''Debate Team'', ''Science Club''}"
    by (auto simp: activities_def)
  have c: "card (dom activities) = 6"
    unfolding d by simp
  have p: "\<forall>name act. activities name = Some act \<longrightarrow> participants act = []"
    by (auto simp: activities_def split: if_splits)
  from d c p show ?thesis by blast
qed

theorem activities_seed_witness:
  "activities ''Science Club''
     = Some \<lparr>description = ''Conduct experiments and explore scientific concepts'',
             schedule = ''Fridays, 3:30 PM - 5:00 PM'',
             max_participants = 20,
             participants = []\<rparr>
   \<and> participants (the (activities ''Science Club'')) = []
   \<and> ''Science Club'' \<in> dom activities
   \<and> ''Chess Club'' \<notin> dom activities"
proof -
  have a: "activities ''Science Club''
     = Some \<lparr>description = ''Conduct experiments and explore scientific concepts'',
             schedule = ''Fridays, 3:30 PM - 5:00 PM'',
             max_participants = 20,
             participants = []\<rparr>"
    by (simp add: activities_def)
  from activities_seed a show ?thesis
    by simp
qed

subsection \<open>Requests to unregister\<close>

text \<open>
  \<^verbatim>\<open>app.py\<close> registers no route for \<^verbatim>\<open>DELETE /activities/{activity_name}/unregister\<close>,
  the request of the class \<^verbatim>\<open>TestUnregisterEndpoint\<close> of \<^verbatim>\<open>tests/test_app.py\<close>.

  C1. After the signup of student7@mergington.edu for the Basketball Club, the request
  to unregister that email from that activity reaches no handler: it is not answered with
  the message "Unregistered {email} from {name}", the registry is as before, and the
  email is still in the participants list.
\<close>

theorem unregister_not_routed:
  "handle (Request DELETE [''activities'', ''Basketball Club'', ''unregister'']
             (Some ''student7@mergington.edu''))
     (run [Request POST [''activities'', ''Basketball Club'', ''signup'']
             (Some ''student7@mergington.edu'')] activities)
   = (NotHandled,
      run [Request POST [''activities'', ''Basketball Club'', ''signup'']
             (Some ''student7@mergington.edu'')] activities)
   \<and> map_option participants
       (run [Request POST [''activities'', ''Basketball Club'', ''signup'']
               (Some ''student7@mergington.edu''),
             Request DELETE [''activities'', ''Basketball Club'', ''unregister'']
               (Some ''student7@mergington.edu'')] activities ''Basketball Club'')
     = Some [''student7@mergington.edu'']"
  by (simp add: signup_for_activity_def activities_def)

text \<open>
  C5. On the registry of the start, a request to unregister from an activity that does
  not exist, and a request to unregister an email that was never signed up for the Art
  Studio, reach no handler either: neither is answered by an exception of the program
  with detail "Activity not found" or "not signed up". The registry is as before.
\<close>

theorem unregister_failures_not_routed:
  "handle (Request DELETE [''activities'', ''Nonexistent Activity'', ''unregister'']
             (Some ''student@mergington.edu'')) activities
     = (NotHandled, activities)
   \<and> handle (Request DELETE [''activities'', ''Art Studio'', ''unregister'']
             (Some ''notregistered@mergington.edu'')) activities
     = (NotHandled, activities)"
  by simp

text \<open>
  C7. Signup, then unregister, then signup again, for student6@mergington.edu and the
  Science Club, from the registry of the start: the first signup succeeds, the request to
  unregister reaches no handler, and the second signup fails with status 400, the
  email being still signed up.
\<close>

theorem signup_unregister_signup_conflict:
  "fst (handle (Request POST [''activities'', ''Science Club'', ''signup''] (Some ''student6@mergington.edu''))
          activities)
     = JSONMessage ''Signed up student6@mergington.edu for Science Club''
   \<and> fst (handle (Request DELETE [''activities'', ''Science Club'', ''unregister''] (Some ''student6@mergington.edu''))
          (run [Request POST [''activities'', ''Science Club'', ''signup''] (Some ''student6@mergington.edu'')]
             activities))
     = NotHandled
   \<and> fst (handle (Request POST [''activities'', ''Science Club'', ''signup''] (Some ''student6@mergington.edu''))
          (run [Request POST [''activities'', ''Science Club'', ''signup''] (Some ''student6@mergington.edu''),
                Request DELETE [''activities'', ''Science Club'', ''unregister''] (Some ''student6@mergington.edu'')]
             activities))
     = HTTPException 400 ''Student already signed up for this activity''"
  by (simp add: signup_for_activity_def activities_def)

end
